theory Spec2Isabelle
  imports Main "HOL-Library.Word"
begin

section \<open>Memory objects, object states and the store\<close>

text \<open>
  \<^verbatim>\<open>AddressSpace.h\<close> only forward-declares \<^verbatim>\<open>MemoryObject\<close> and \<^verbatim>\<open>ObjectState\<close>
  (\<^verbatim>\<open>Memory.h\<close> is not among the sources), so both records below follow the
  specification's data model.
\<close>

type_synonym byte = "8 word"

text \<open>
  Modelled from the spec: the class \<^verbatim>\<open>MemoryObject\<close> (\<^verbatim>\<open>Memory.h\<close> is missing). The
  fields are the ones the data model lists and the operations below read: identity,
  (concrete) base address, size and the read-only flag.
\<close>

record MemoryObject =
  mo_id :: "64 word"
  mo_address :: "64 word"
  mo_size :: "64 word"
  mo_isReadOnly :: bool

text \<open>
  Modelled from the spec: the class \<^verbatim>\<open>ObjectState\<close> (\<^verbatim>\<open>Memory.h\<close> is missing): the
  copy-on-write stamp, the concrete byte buffer and the read-only flag. The symbolic
  overlay of the bytes is read by no operation below and is left out.
\<close>

record ObjectState =
  copyOnWriteOwner :: "32 word"
  concreteStore :: "byte list"
  readOnly :: bool

text \<open>
  An \<^verbatim>\<open>ObjectState *\<close> is an index into the store, the list of all object states that
  have been allocated; \<^verbatim>\<open>new ObjectState(...)\<close> appends to it. Two address spaces that hold
  the same index share that object state.
\<close>

type_synonym os_ref = nat
type_synonym store = "ObjectState list"

text \<open>
  Modelled from the spec: \<^verbatim>\<open>ObjectState::write\<close> and \<^verbatim>\<open>ObjectState::read\<close>
  (\<^verbatim>\<open>Memory.h\<close> is missing), for one byte at a concrete offset. A read outside the
  buffer has no value.
\<close>

definition write8 :: "ObjectState \<Rightarrow> nat \<Rightarrow> byte \<Rightarrow> ObjectState" where
  "write8 os off v = os\<lparr>concreteStore := (concreteStore os)[off := v]\<rparr>"

definition read8 :: "ObjectState \<Rightarrow> nat \<Rightarrow> byte option" where
  "read8 os off =
     (if off < length (concreteStore os) then Some (concreteStore os ! off) else None)"

text \<open>A write through an \<^verbatim>\<open>ObjectState *\<close>: the object state at that place of the store
  changes, and every holder of the reference sees it.\<close>

definition store_write :: "store \<Rightarrow> os_ref \<Rightarrow> nat \<Rightarrow> byte \<Rightarrow> store" where
  "store_write st r off v = st[r := write8 (st ! r) off v]"

section \<open>The ordered memory map\<close>

text \<open>
  Modelled from the spec: \<^verbatim>\<open>MemoryObjectLT::operator()\<close> is declared in
  \<^verbatim>\<open>AddressSpace.h\<close> and defined elsewhere. The data model orders memory objects by
  address, with the id as tie-breaker.
\<close>

definition MemoryObjectLT :: "MemoryObject \<Rightarrow> MemoryObject \<Rightarrow> bool" where
  "MemoryObjectLT a b =
     (mo_address a < mo_address b \<or> (mo_address a = mo_address b \<and> mo_id a < mo_id b))"

text \<open>
  Modelled from the spec: \<^verbatim>\<open>ImmutableMap\<close> (\<^verbatim>\<open>klee/ADT/ImmutableMap.h\<close> is missing), the
  persistent ordered map behind \<^verbatim>\<open>MemoryMap\<close>. It is the list of its bindings in
  iteration order; keys are compared with \<^const>\<open>MemoryObjectLT\<close> only, two keys being the
  same when neither is below the other.
\<close>

type_synonym MemoryMap = "(MemoryObject \<times> os_ref) list"

text \<open>Modelled from the spec: \<^verbatim>\<open>ImmutableMap::lookup\<close> (missing), the binding stored for
  a key, if there is one.\<close>

fun lookup :: "MemoryMap \<Rightarrow> MemoryObject \<Rightarrow> (MemoryObject \<times> os_ref) option" where
  "lookup [] k = None"
| "lookup ((k', v) # m) k =
     (if \<not> MemoryObjectLT k k' \<and> \<not> MemoryObjectLT k' k then Some (k', v) else lookup m k)"

text \<open>Modelled from the spec: \<^verbatim>\<open>ImmutableMap::replace\<close> (missing), which inserts the
  binding at its place in the order or overwrites the binding of the same key.\<close>

fun replace :: "MemoryObject \<times> os_ref \<Rightarrow> MemoryMap \<Rightarrow> MemoryMap" where
  "replace (k, v) [] = [(k, v)]"
| "replace (k, v) ((k', v') # m) =
     (if MemoryObjectLT k k' then (k, v) # (k', v') # m
      else if MemoryObjectLT k' k then (k', v') # replace (k, v) m
      else (k, v) # m)"

text \<open>Modelled from the spec: \<^verbatim>\<open>ImmutableMap::remove\<close> (missing), which drops the
  binding of the key.\<close>

fun remove :: "MemoryObject \<Rightarrow> MemoryMap \<Rightarrow> MemoryMap" where
  "remove k [] = []"
| "remove k ((k', v') # m) =
     (if \<not> MemoryObjectLT k k' \<and> \<not> MemoryObjectLT k' k then m else (k', v') # remove k m)"

section \<open>AddressSpace\<close>

text \<open>
  The data members of \<^verbatim>\<open>class AddressSpace\<close>: \<^verbatim>\<open>mutable unsigned cowKey\<close>,
  \<^verbatim>\<open>MemoryMap objects\<close> and \<^verbatim>\<open>mutable bool complete = false\<close>. The epoch counter is an
  \<^verbatim>\<open>unsigned\<close>, a 32-bit word whose increment wraps around.
\<close>

record AddressSpace =
  cowKey :: "32 word"
  objects :: MemoryMap
  complete :: bool

text \<open>\<^verbatim>\<open>AddressSpace() : cowKey(1) {}\<close>\<close>

definition AddressSpace_init :: AddressSpace where
  "AddressSpace_init = \<lparr>cowKey = 1, objects = [], complete = False\<rparr>"

text \<open>
  \<^verbatim>\<open>AddressSpace(const AddressSpace &b)
      : cowKey(++b.cowKey), objects(b.objects), complete(b.complete) {}\<close>

  The pre-increment writes to the source through its \<^verbatim>\<open>mutable\<close> member, so the copy
  constructor returns both the source as it is afterwards and the new address space.
\<close>

definition AddressSpace_copy :: "AddressSpace \<Rightarrow> AddressSpace \<times> AddressSpace" where
  "AddressSpace_copy b =
     (let b' = b\<lparr>cowKey := cowKey b + 1\<rparr>
      in (b', \<lparr>cowKey = cowKey b', objects = objects b', complete = complete b'\<rparr>))"

text \<open>The source after \<open>n\<close> copies have been constructed from it, one after the other.\<close>

definition source_after_copies :: "nat \<Rightarrow> AddressSpace \<Rightarrow> AddressSpace" where
  "source_after_copies n b = ((fst \<circ> AddressSpace_copy) ^^ n) b"

text \<open>
  Modelled from the spec: the body of \<^verbatim>\<open>AddressSpace::bindObject\<close>
  (\<^verbatim>\<open>AddressSpace.cpp\<close> is missing; the header declares it). It inserts or overwrites
  the binding, and the object state's \<^verbatim>\<open>copyOnWriteOwner\<close> is set to \<^verbatim>\<open>cowKey\<close>.
\<close>

definition bindObject ::
  "store \<Rightarrow> AddressSpace \<Rightarrow> MemoryObject \<Rightarrow> os_ref \<Rightarrow> store \<times> AddressSpace" where
  "bindObject st as mo r =
     (st[r := (st ! r)\<lparr>copyOnWriteOwner := cowKey as\<rparr>],
      as\<lparr>objects := replace (mo, r) (objects as)\<rparr>)"

text \<open>
  Modelled from the spec: the body of \<^verbatim>\<open>AddressSpace::unbindObject\<close> (missing), which
  removes the binding.
\<close>

definition unbindObject :: "AddressSpace \<Rightarrow> MemoryObject \<Rightarrow> AddressSpace" where
  "unbindObject as mo = as\<lparr>objects := remove mo (objects as)\<rparr>"

text \<open>
  Modelled from the spec: the body of \<^verbatim>\<open>AddressSpace::findObject\<close> (missing), the
  lookup of a binding by its memory object.
\<close>

definition findObject :: "AddressSpace \<Rightarrow> MemoryObject \<Rightarrow> (MemoryObject \<times> os_ref) option" where
  "findObject as mo = lookup (objects as) mo"

text \<open>
  Modelled from the spec: the body of \<^verbatim>\<open>AddressSpace::getWriteable\<close> (missing). If
  \<^verbatim>\<open>os.copyOnWriteOwner == cowKey\<close> it returns \<^verbatim>\<open>os\<close> itself; otherwise it clones
  \<^verbatim>\<open>os\<close>, stamps the clone with \<^verbatim>\<open>cowKey\<close>, rebinds the memory object to the clone and
  returns the clone. The header's comment says the same: a writeable object state,
  "creating a new copy of the given ObjectState if necessary"; for an owned one the
  routine "effectively just strips the const qualifier".
\<close>

definition getWriteable ::
  "store \<Rightarrow> AddressSpace \<Rightarrow> MemoryObject \<Rightarrow> os_ref \<Rightarrow> store \<times> AddressSpace \<times> os_ref" where
  "getWriteable st as mo r =
     (if copyOnWriteOwner (st ! r) = cowKey as then (st, as, r)
      else
        let r' = length st;
            st' = st @ [(st ! r)\<lparr>copyOnWriteOwner := cowKey as\<rparr>]
        in (st', as\<lparr>objects := replace (mo, r') (objects as)\<rparr>, r'))"

text \<open>
  The invariant documented at \<^verbatim>\<open>AddressSpace::objects\<close>:
  \<^verbatim>\<open>\invariant forall o in objects, o->copyOnWriteOwner <= cowKey\<close>
  (every bound reference also points into the store).
\<close>

definition as_inv :: "store \<Rightarrow> AddressSpace \<Rightarrow> bool" where
  "as_inv st as =
     list_all (\<lambda>(mo, r). r < length st \<and> copyOnWriteOwner (st ! r) \<le> cowKey as) (objects as)"

section \<open>DistanceCalculator\<close>

text \<open>\<^verbatim>\<open>enum WeightResult : std::uint8_t { Done = 0U, Continue = 1U, Miss = 2U }\<close>\<close>

datatype WeightResult = Done | Continue | Miss

text \<open>\<^verbatim>\<open>struct DistanceResult\<close>; \<^verbatim>\<open>weight_type\<close> is \<^verbatim>\<open>unsigned\<close>.\<close>

record DistanceResult =
  result :: WeightResult
  weight :: "32 word"
  isInsideFunction :: bool

text \<open>\<^verbatim>\<open>enum TargetKind\<close> of \<^verbatim>\<open>class DistanceCalculator\<close>.\<close>

datatype TargetKind = LocalTarget | PreTarget | PostTarget | NoneTarget

text \<open>A \<^verbatim>\<open>KBlock *\<close> is the identity of a block of the program graph.\<close>

type_synonym KBlock = nat

text \<open>
  \<^verbatim>\<open>struct SpeculativeState\<close>: the public members \<^verbatim>\<open>kb\<close> and \<^verbatim>\<open>kind\<close>. The private
  \<^verbatim>\<open>hashValue\<close> only selects the bucket of the hash table; the key equality of the table is
  \<^verbatim>\<open>SpeculativeStateCompare\<close>, which reads \<^verbatim>\<open>kb\<close> and \<^verbatim>\<open>kind\<close> alone.
\<close>

record SpeculativeState =
  kb :: KBlock
  kind :: TargetKind

definition SpeculativeStateCompare :: "SpeculativeState \<Rightarrow> SpeculativeState \<Rightarrow> bool" where
  "SpeculativeStateCompare a b = (kb a = kb b \<and> kind a = kind b)"

text \<open>
  \<^verbatim>\<open>SpeculativeStateToDistanceResultMap\<close> and
  \<^verbatim>\<open>TargetToSpeculativeStateToDistanceResultMap\<close>: the two levels of
  \<^verbatim>\<open>distanceResultCache\<close>, as the lists of their entries; an entry is found by key equality.
\<close>

type_synonym SpeculativeStateToDistanceResultMap = "(SpeculativeState \<times> DistanceResult) list"

type_synonym TargetToSpeculativeStateToDistanceResultMap =
  "(KBlock \<times> SpeculativeStateToDistanceResultMap) list"

text \<open>\<^verbatim>\<open>std::unordered_map\<close>'s lookup of a key (\<^verbatim>\<open>count\<close>, \<^verbatim>\<open>at\<close>) and its assignment
  \<^verbatim>\<open>m[key] = value\<close>, which overwrites the value of a key that is present and adds the
  entry otherwise, for each of the two levels.\<close>

fun spec_find ::
  "SpeculativeStateToDistanceResultMap \<Rightarrow> SpeculativeState \<Rightarrow> DistanceResult option" where
  "spec_find [] s = None"
| "spec_find ((s', d) # m) s = (if SpeculativeStateCompare s' s then Some d else spec_find m s)"

fun spec_assign ::
  "SpeculativeStateToDistanceResultMap \<Rightarrow> SpeculativeState \<Rightarrow> DistanceResult \<Rightarrow>
   SpeculativeStateToDistanceResultMap" where
  "spec_assign [] s d = [(s, d)]"
| "spec_assign ((s', d') # m) s d =
     (if SpeculativeStateCompare s' s then (s', d) # m else (s', d') # spec_assign m s d)"

fun target_find ::
  "TargetToSpeculativeStateToDistanceResultMap \<Rightarrow> KBlock \<Rightarrow>
   SpeculativeStateToDistanceResultMap option" where
  "target_find [] t = None"
| "target_find ((t', m) # c) t = (if t' = t then Some m else target_find c t)"

fun target_assign ::
  "TargetToSpeculativeStateToDistanceResultMap \<Rightarrow> KBlock \<Rightarrow>
   SpeculativeStateToDistanceResultMap \<Rightarrow> TargetToSpeculativeStateToDistanceResultMap" where
  "target_assign [] t m = [(t, m)]"
| "target_assign ((t', m') # c) t m =
     (if t' = t then (t', m) # c else (t', m') # target_assign c t m)"

text \<open>
  Modelled from the spec: the body of
  \<^verbatim>\<open>DistanceCalculator::getDistance(KBlock *kb, TargetKind kind, KBlock *target)\<close>
  (\<^verbatim>\<open>DistanceCalculator.cpp\<close> is missing; the header declares it). The result is cached,
  keyed by the target and the pair of block and kind, and the cache is never invalidated:
  a key that is present answers from the cache, a key that is absent is computed and
  stored.

  \<^verbatim>\<open>computeDistance\<close> is declared a \<^verbatim>\<open>const\<close> member and reads the fixed program graph
  only; its body is missing, and it is the parameter \<open>computeDistance\<close>.
\<close>

definition getDistance_cached ::
  "(KBlock \<Rightarrow> TargetKind \<Rightarrow> KBlock \<Rightarrow> DistanceResult) \<Rightarrow>
   TargetToSpeculativeStateToDistanceResultMap \<Rightarrow> KBlock \<Rightarrow> TargetKind \<Rightarrow> KBlock \<Rightarrow>
   DistanceResult \<times> TargetToSpeculativeStateToDistanceResultMap" where
  "getDistance_cached computeDistance cache b k target =
     (let specState = \<lparr>kb = b, kind = k\<rparr> in
      case target_find cache target of
        None \<Rightarrow>
          (let d = computeDistance b k target
           in (d, target_assign cache target [(specState, d)]))
      | Some m \<Rightarrow>
          (case spec_find m specState of
             None \<Rightarrow>
               (let d = computeDistance b k target
                in (d, target_assign cache target (spec_assign m specState d)))
           | Some d \<Rightarrow> (d, cache)))"

text \<open>
  Modelled from the spec: the body of
  \<^verbatim>\<open>DistanceCalculator::getDistance(const ExecutionState &es, KBlock *target)\<close>
  (missing). The position of the state (program counter and call stack) is classified
  relative to the target with the code graph, and the distance for that block and kind
  is looked up. The classification is the parameter \<open>classify\<close>, a function of the state
  and the target.
\<close>

definition getDistance ::
  "(KBlock \<Rightarrow> TargetKind \<Rightarrow> KBlock \<Rightarrow> DistanceResult) \<Rightarrow>
   ('es \<Rightarrow> KBlock \<Rightarrow> KBlock \<times> TargetKind) \<Rightarrow>
   TargetToSpeculativeStateToDistanceResultMap \<Rightarrow> 'es \<Rightarrow> KBlock \<Rightarrow>
   DistanceResult \<times> TargetToSpeculativeStateToDistanceResultMap" where
  "getDistance computeDistance classify cache es target =
     (case classify es target of
        (b, k) \<Rightarrow> getDistance_cached computeDistance cache b k target)"

text \<open>A run of the calculator: the queries are answered in order, each on the cache its
  predecessors left.\<close>

fun getDistances ::
  "(KBlock \<Rightarrow> TargetKind \<Rightarrow> KBlock \<Rightarrow> DistanceResult) \<Rightarrow>
   ('es \<Rightarrow> KBlock \<Rightarrow> KBlock \<times> TargetKind) \<Rightarrow>
   TargetToSpeculativeStateToDistanceResultMap \<Rightarrow> ('es \<times> KBlock) list \<Rightarrow>
   DistanceResult list \<times> TargetToSpeculativeStateToDistanceResultMap" where
  "getDistances computeDistance classify cache [] = ([], cache)"
| "getDistances computeDistance classify cache ((es, target) # qs) =
     (case getDistance computeDistance classify cache es target of
        (d, cache') \<Rightarrow>
          (case getDistances computeDistance classify cache' qs of
             (ds, cache'') \<Rightarrow> (d # ds, cache'')))"

text \<open>The distance of a query computed afresh, with no cache.\<close>

definition freshDistance ::
  "(KBlock \<Rightarrow> TargetKind \<Rightarrow> KBlock \<Rightarrow> DistanceResult) \<Rightarrow>
   ('es \<Rightarrow> KBlock \<Rightarrow> KBlock \<times> TargetKind) \<Rightarrow> 'es \<times> KBlock \<Rightarrow> DistanceResult" where
  "freshDistance computeDistance classify q =
     (case q of (es, target) \<Rightarrow>
        (case classify es target of (b, k) \<Rightarrow> computeDistance b k target))"

text \<open>Every entry of the cache is the distance computed for its key.\<close>

definition cache_ok ::
  "(KBlock \<Rightarrow> TargetKind \<Rightarrow> KBlock \<Rightarrow> DistanceResult) \<Rightarrow>
   TargetToSpeculativeStateToDistanceResultMap \<Rightarrow> bool" where
  "cache_ok computeDistance cache =
     (\<forall>target m s d. target_find cache target = Some m \<longrightarrow> spec_find m s = Some d \<longrightarrow>
        d = computeDistance (kb s) (kind s) target)"

section \<open>The copy constructor\<close>

lemma source_after_copies_eq:
  "source_after_copies n b = b\<lparr>cowKey := cowKey b + of_nat n\<rparr>"
  unfolding source_after_copies_def
  by (induction n) (simp_all add: AddressSpace_copy_def Let_def add.assoc add.commute)

lemma word_less_succ: "x < m \<Longrightarrow> x < x + 1" for x m :: "'a::len word"
  by uint_arith

lemma word_le_succ: "x < m \<Longrightarrow> y \<le> x \<Longrightarrow> y \<le> x + 1" for x y m :: "'a::len word"
  by uint_arith

text \<open>
  C10: copy-constructing an address space mutates its source: the source's \<^verbatim>\<open>cowKey\<close>
  is incremented by one (an \<^verbatim>\<open>unsigned\<close> increment), the copy's \<^verbatim>\<open>cowKey\<close> is the source's
  new value, and the copy inherits the source's \<^verbatim>\<open>complete\<close> flag.
\<close>

theorem AddressSpace_copy_mutates_source:
  "cowKey (fst (AddressSpace_copy as1)) = cowKey as1 + 1 \<and>
   cowKey (snd (AddressSpace_copy as1)) = cowKey (fst (AddressSpace_copy as1)) \<and>
   complete (snd (AddressSpace_copy as1)) = complete as1"
  by (simp add: AddressSpace_copy_def Let_def)

text \<open>
  C1, as amended: after \<open>as2 = clone(as1)\<close> the clone's \<^verbatim>\<open>cowKey\<close> equals the source's
  \<^verbatim>\<open>cowKey\<close> as observed after the clone (it is not greater); it exceeds the value the
  source had before the clone whenever that value was below \<^verbatim>\<open>UINT_MAX\<close>. The two
  \<^verbatim>\<open>objects\<close> maps are equal binding for binding: every memory object is bound to the same
  store reference in both, so no object state was copied.
\<close>

theorem AddressSpace_copy_shares_objects:
  "cowKey (snd (AddressSpace_copy as1)) = cowKey (fst (AddressSpace_copy as1)) \<and>
   cowKey (snd (AddressSpace_copy as1)) = cowKey as1 + 1 \<and>
   objects (snd (AddressSpace_copy as1)) = objects as1 \<and>
   objects (fst (AddressSpace_copy as1)) = objects as1 \<and>
   (cowKey as1 < 0xFFFFFFFF \<longrightarrow> cowKey as1 < cowKey (snd (AddressSpace_copy as1)))"
  by (simp add: AddressSpace_copy_def Let_def word_less_succ)

theorem AddressSpace_copy_shares_objects_witness:
  "cowKey AddressSpace_init < 0xFFFFFFFF \<and>
   cowKey AddressSpace_init < cowKey (snd (AddressSpace_copy AddressSpace_init)) \<and>
   cowKey (snd (AddressSpace_copy AddressSpace_init)) = 2 \<and>
   cowKey (fst (AddressSpace_copy AddressSpace_init)) = 2"
  using AddressSpace_copy_shares_objects [of AddressSpace_init]
  by (simp add: AddressSpace_copy_def AddressSpace_init_def Let_def)

text \<open>
  C1 as stated fails on a freshly constructed address space: after the copy both keys
  are 2, so the clone's key is not strictly greater than the source's.
\<close>

theorem AddressSpace_copy_key_not_greater:
  "\<not> cowKey (fst (AddressSpace_copy AddressSpace_init))
      < cowKey (snd (AddressSpace_copy AddressSpace_init))"
  by (simp add: AddressSpace_copy_def AddressSpace_init_def Let_def)

section \<open>The ownership invariant\<close>

lemma lookup_replace_same: "lookup (replace (k, v) m) k = Some (k, v)"
  by (induction m) (auto simp: MemoryObjectLT_def)

lemma set_replace: "set (replace (k, v) m) \<subseteq> insert (k, v) (set m)"
  by (induction m) (auto split: if_splits)

lemma list_all_remove: "list_all P m \<Longrightarrow> list_all P (remove k m)"
  by (induction m) auto

lemma lookup_in_set: "lookup m k = Some (k', v) \<Longrightarrow> (k', v) \<in> set m"
  by (induction m) (auto split: if_splits)

lemma as_inv_iff:
  "as_inv st as \<longleftrightarrow>
     (\<forall>(mo, r) \<in> set (objects as). r < length st \<and> copyOnWriteOwner (st ! r) \<le> cowKey as)"
  by (simp add: as_inv_def list_all_iff)

text \<open>
  Binding, unbinding and \<^verbatim>\<open>getWriteable\<close> keep the invariant of the address space they
  are called on, and so does the copy constructor on both address spaces as long as the
  epoch counter is below \<^verbatim>\<open>UINT_MAX\<close>.
\<close>

lemma as_inv_bindObject:
  assumes inv: "as_inv st as" and r: "r < length st"
      and bind: "bindObject st as mo r = (st', as')"
  shows "as_inv st' as'"
proof -
  have st': "st' = st[r := (st ! r)\<lparr>copyOnWriteOwner := cowKey as\<rparr>]"
    and as': "as' = as\<lparr>objects := replace (mo, r) (objects as)\<rparr>"
    using bind by (simp_all add: bindObject_def)
  have "q < length st' \<and> copyOnWriteOwner (st' ! q) \<le> cowKey as'"
    if "(k, q) \<in> set (objects as')" for k q
  proof -
    from that have "(k, q) = (mo, r) \<or> (k, q) \<in> set (objects as)"
      using set_replace [of mo r "objects as"] by (auto simp: as')
    then have q: "q < length st" and le: "q \<noteq> r \<Longrightarrow> copyOnWriteOwner (st ! q) \<le> cowKey as"
      using inv r by (auto simp: as_inv_iff)
    show ?thesis
      using q le by (cases "q = r") (simp_all add: st' as')
  qed
  then show ?thesis by (auto simp: as_inv_iff)
qed

lemma as_inv_unbindObject: "as_inv st as \<Longrightarrow> as_inv st (unbindObject as mo)"
  by (simp add: as_inv_def unbindObject_def list_all_remove)

lemma as_inv_getWriteable:
  assumes inv: "as_inv st as" and gw: "getWriteable st as mo r = (st', as', r')"
  shows "as_inv st' as'"
proof (cases "copyOnWriteOwner (st ! r) = cowKey as")
  case True
  then show ?thesis using inv gw by (simp add: getWriteable_def)
next
  case False
  then have st': "st' = st @ [(st ! r)\<lparr>copyOnWriteOwner := cowKey as\<rparr>]"
    and as': "as' = as\<lparr>objects := replace (mo, length st) (objects as)\<rparr>"
    using gw by (auto simp: getWriteable_def Let_def)
  have "q < length st' \<and> copyOnWriteOwner (st' ! q) \<le> cowKey as'"
    if "(k, q) \<in> set (objects as')" for k q
  proof -
    from that have "(k, q) = (mo, length st) \<or> (k, q) \<in> set (objects as)"
      using set_replace [of mo "length st" "objects as"] by (auto simp: as')
    then show ?thesis
      using inv by (auto simp: as_inv_iff st' as' nth_append)
  qed
  then show ?thesis by (auto simp: as_inv_iff)
qed

lemma as_inv_copy:
  assumes "as_inv st as" and "cowKey as < 0xFFFFFFFF"
  shows "as_inv st (fst (AddressSpace_copy as)) \<and> as_inv st (snd (AddressSpace_copy as))"
  using assms
  by (auto simp: as_inv_iff AddressSpace_copy_def Let_def word_le_succ)

text \<open>
  C2: every bound object state has \<^verbatim>\<open>copyOnWriteOwner <= cowKey\<close>, and every operation
  keeps it so. The copy constructor does not: bind one object state in a fresh address
  space (its stamp becomes 1) and construct \<open>2^32 - 2\<close> copies of that address space; its
  \<^verbatim>\<open>cowKey\<close> is then \<^verbatim>\<open>UINT_MAX\<close> and the invariant holds. The next copy wraps the counter
  to 0, below the stamp, in the source and in the copy.
\<close>

theorem cowKey_overflow_breaks_invariant:
  "let os = \<lparr>copyOnWriteOwner = 0, concreteStore = [0, 0, 0, 0], readOnly = False\<rparr>;
       moA = \<lparr>mo_id = 1, mo_address = 0x1000, mo_size = 4, mo_isReadOnly = False\<rparr>;
       (st, as0) = bindObject [os] AddressSpace_init moA 0;
       as1 = source_after_copies (2 ^ 32 - 2) as0
   in cowKey as1 = 0xFFFFFFFF \<and> as_inv st as1 \<and>
      findObject as1 moA = Some (moA, 0) \<and> copyOnWriteOwner (st ! 0) = 1 \<and>
      cowKey (fst (AddressSpace_copy as1)) = 0 \<and>
      cowKey (snd (AddressSpace_copy as1)) = 0 \<and>
      \<not> as_inv st (fst (AddressSpace_copy as1)) \<and>
      \<not> as_inv st (snd (AddressSpace_copy as1))"
proof -
  have wrap: "(4294967296 :: 32 word) = 0" by simp
  show ?thesis
    by (simp add: bindObject_def AddressSpace_init_def source_after_copies_eq as_inv_def
        AddressSpace_copy_def Let_def wrap findObject_def MemoryObjectLT_def)
qed

section \<open>Obtaining a writeable object state\<close>

text \<open>
  C3: for an address space that binds \<open>mo\<close> to the object state \<open>r\<close>, the object state
  that \<^verbatim>\<open>getWriteable(mo, r)\<close> returns carries the address space's \<^verbatim>\<open>cowKey\<close> as its
  stamp, and \<^verbatim>\<open>findObject(mo)\<close> afterwards yields that same object state.
\<close>

theorem getWriteable_owned_and_bound:
  assumes "findObject as mo = Some (mo', r)"
      and "r < length st"
      and "getWriteable st as mo r = (st', as', r')"
  shows "copyOnWriteOwner (st' ! r') = cowKey as' \<and> cowKey as' = cowKey as \<and>
         map_option snd (findObject as' mo) = Some r' \<and> r' < length st'"
  using assms
  by (auto simp: getWriteable_def findObject_def Let_def lookup_replace_same split: if_splits)

theorem getWriteable_owned_and_bound_witness:
  "let moA = \<lparr>mo_id = 1, mo_address = 0x1000, mo_size = 4, mo_isReadOnly = False\<rparr>;
       st = [\<lparr>copyOnWriteOwner = 1, concreteStore = [0, 0, 0, 0], readOnly = False\<rparr>];
       as = \<lparr>cowKey = 2, objects = [(moA, 0)], complete = False\<rparr>;
       res = getWriteable st as moA 0
   in findObject as moA = Some (moA, 0) \<and> snd (snd res) = 1 \<and>
      copyOnWriteOwner (fst res ! snd (snd res)) = 2 \<and>
      map_option snd (findObject (fst (snd res)) moA) = Some 1"
proof -
  let ?moA = "\<lparr>mo_id = 1, mo_address = 0x1000, mo_size = 4, mo_isReadOnly = False\<rparr>"
  let ?st = "[\<lparr>copyOnWriteOwner = 1, concreteStore = [0, 0, 0, 0], readOnly = False\<rparr>]"
  let ?as = "\<lparr>cowKey = 2, objects = [(?moA, 0)], complete = False\<rparr>"
  let ?res = "getWriteable ?st ?as ?moA 0"
  have bound: "findObject ?as ?moA = Some (?moA, 0)"
    by (simp add: findObject_def MemoryObjectLT_def)
  have live: "(0::nat) < length ?st" by simp
  have run: "?res = (fst ?res, fst (snd ?res), snd (snd ?res))" by simp
  have new: "snd (snd ?res) = 1" by (simp add: getWriteable_def Let_def)
  show ?thesis
    using getWriteable_owned_and_bound [OF bound live run] bound new
    by (simp add: Let_def)
qed

section \<open>Copy-on-write isolation\<close>

text \<open>
  As long as the copy did not wrap the epoch counter, writing through the object state
  that \<^verbatim>\<open>getWriteable\<close> returns to the clone leaves every object state that existed
  before untouched: the clone gets a fresh object state, and the source still finds the
  old one.
\<close>

lemma getWriteable_isolated_below_UINT_MAX:
  assumes inv: "as_inv st as1" and below: "cowKey as1 < 0xFFFFFFFF"
      and bound: "findObject as1 mo = Some (mo', r)"
      and copy: "AddressSpace_copy as1 = (as1', as2)"
      and gw: "getWriteable st as2 mo r = (st', as2', r')"
  shows "r' = length st \<and> findObject as1' mo = Some (mo', r) \<and>
         (\<forall>q < length st. store_write st' r' off v ! q = st ! q)"
proof -
  have "(mo', r) \<in> set (objects as1)"
    using bound by (simp add: findObject_def lookup_in_set)
  then have "copyOnWriteOwner (st ! r) \<le> cowKey as1"
    using inv by (auto simp: as_inv_iff)
  moreover have "cowKey as1 < cowKey as1 + 1"
    using below by (rule word_less_succ)
  ultimately have "copyOnWriteOwner (st ! r) \<noteq> cowKey as1 + 1" by auto
  moreover have "cowKey as2 = cowKey as1 + 1" and "objects as1' = objects as1"
    using copy by (auto simp: AddressSpace_copy_def Let_def)
  ultimately show ?thesis
    using gw bound
    by (auto simp: getWriteable_def Let_def findObject_def store_write_def nth_append)
qed

text \<open>
  C4: writing through the object state returned by the clone's \<^verbatim>\<open>getWriteable\<close> must
  not change what the source reads. Once the epoch counter has wrapped it does: bind one
  object state in a fresh address space (stamp 1), construct \<open>2^32 - 1\<close> copies of that
  address space (its \<^verbatim>\<open>cowKey\<close> is then 0) and one more, \<open>as2\<close>. Source and clone now both
  carry \<^verbatim>\<open>cowKey\<close> 1, the stamp of the object state they share, so \<^verbatim>\<open>getWriteable\<close> on
  the clone returns the shared object state itself, and the byte written through it is
  the byte the source reads.
\<close>

theorem cowKey_overflow_breaks_isolation:
  "let os = \<lparr>copyOnWriteOwner = 0, concreteStore = [0, 0, 0, 0], readOnly = False\<rparr>;
       moA = \<lparr>mo_id = 1, mo_address = 0x1000, mo_size = 4, mo_isReadOnly = False\<rparr>;
       (st, as0) = bindObject [os] AddressSpace_init moA 0;
       (as1, as2) = AddressSpace_copy (source_after_copies (2 ^ 32 - 1) as0);
       (st', as2', r) = getWriteable st as2 moA 0;
       st'' = store_write st' r 0 1
   in map_option snd (findObject as1 moA) = Some 0 \<and>
      map_option snd (findObject as2 moA) = Some 0 \<and>
      cowKey as1 = 1 \<and> cowKey as2 = 1 \<and> copyOnWriteOwner (st ! 0) = 1 \<and>
      read8 (st ! 0) 0 = Some 0 \<and>
      r = 0 \<and>
      read8 (st'' ! 0) 0 = Some 1"
  by (simp add: bindObject_def AddressSpace_init_def source_after_copies_eq
      AddressSpace_copy_def Let_def getWriteable_def store_write_def findObject_def
      MemoryObjectLT_def read8_def write8_def)

section \<open>The distance cache\<close>

lemma target_find_assign:
  "target_find (target_assign c t m) t' = (if t' = t then Some m else target_find c t')"
  by (induction c) auto

lemma spec_find_assign:
  "spec_find (spec_assign m s d) s' =
     (if SpeculativeStateCompare s s' then Some d else spec_find m s')"
  by (induction m) (auto simp: SpeculativeStateCompare_def)

lemma cache_ok_empty: "cache_ok computeDistance []"
  by (simp add: cache_ok_def)

lemma getDistance_cached_ok:
  assumes ok: "cache_ok computeDistance cache"
      and run: "getDistance_cached computeDistance cache b k target = (d, cache')"
  shows "d = computeDistance b k target \<and> cache_ok computeDistance cache'"
proof (cases "target_find cache target")
  case None
  then have d: "d = computeDistance b k target"
    and c': "cache' = target_assign cache target [(\<lparr>kb = b, kind = k\<rparr>, d)]"
    using run by (auto simp: getDistance_cached_def Let_def)
  have "cache_ok computeDistance cache'"
    unfolding cache_ok_def
  proof (intro allI impI)
    fix t m s e
    assume f: "target_find cache' t = Some m" and g: "spec_find m s = Some e"
    show "e = computeDistance (kb s) (kind s) t"
    proof (cases "t = target")
      case True
      then show ?thesis
        using f g d
        by (auto simp: c' target_find_assign SpeculativeStateCompare_def split: if_splits)
    next
      case False
      then show ?thesis
        using f g ok by (auto simp: c' target_find_assign cache_ok_def)
    qed
  qed
  with d show ?thesis by simp
next
  case (Some m0)
  show ?thesis
  proof (cases "spec_find m0 \<lparr>kb = b, kind = k\<rparr>")
    case None
    then have d: "d = computeDistance b k target"
      and c': "cache' = target_assign cache target (spec_assign m0 \<lparr>kb = b, kind = k\<rparr> d)"
      using run Some by (auto simp: getDistance_cached_def Let_def)
    have "cache_ok computeDistance cache'"
      unfolding cache_ok_def
    proof (intro allI impI)
      fix t m s e
      assume f: "target_find cache' t = Some m" and g: "spec_find m s = Some e"
      show "e = computeDistance (kb s) (kind s) t"
      proof (cases "t = target")
        case True
        then have m: "m = spec_assign m0 \<lparr>kb = b, kind = k\<rparr> d"
          using f by (simp add: c' target_find_assign)
        show ?thesis
        proof (cases "SpeculativeStateCompare \<lparr>kb = b, kind = k\<rparr> s")
          case True
          then show ?thesis
            using g d \<open>t = target\<close>
            by (simp add: m spec_find_assign SpeculativeStateCompare_def)
        next
          case False
          then have "spec_find m0 s = Some e"
            using g by (simp add: m spec_find_assign)
          then show ?thesis
            using ok Some \<open>t = target\<close> by (auto simp: cache_ok_def)
        qed
      next
        case False
        then show ?thesis
          using f g ok by (auto simp: c' target_find_assign cache_ok_def)
      qed
    qed
    with d show ?thesis by simp
  next
    case (Some e)
    then have "d = e" and "cache' = cache"
      using run \<open>target_find cache target = Some m0\<close>
      by (auto simp: getDistance_cached_def Let_def)
    moreover have
      "e = computeDistance (kb \<lparr>kb = b, kind = k\<rparr>) (kind \<lparr>kb = b, kind = k\<rparr>) target"
      using ok \<open>target_find cache target = Some m0\<close> Some
      unfolding cache_ok_def by blast
    ultimately show ?thesis using ok by simp
  qed
qed

lemma getDistance_ok:
  assumes "cache_ok computeDistance cache"
      and "getDistance computeDistance classify cache es target = (d, cache')"
  shows "d = freshDistance computeDistance classify (es, target) \<and>
         cache_ok computeDistance cache'"
  using assms getDistance_cached_ok [of computeDistance cache]
  by (auto simp: getDistance_def freshDistance_def split: prod.splits)

lemma getDistances_ok:
  assumes "cache_ok computeDistance cache"
      and "getDistances computeDistance classify cache qs = (ds, cache')"
  shows "ds = map (freshDistance computeDistance classify) qs \<and>
         cache_ok computeDistance cache'"
  using assms
proof (induction qs arbitrary: cache ds cache')
  case Nil
  then show ?case by simp
next
  case (Cons q qs)
  obtain es target where q: "q = (es, target)" by (cases q)
  obtain d c1 where step: "getDistance computeDistance classify cache es target = (d, c1)"
    by (cases "getDistance computeDistance classify cache es target")
  obtain ds1 c2 where rest: "getDistances computeDistance classify c1 qs = (ds1, c2)"
    by (cases "getDistances computeDistance classify c1 qs")
  from getDistance_ok [OF Cons.prems(1) step]
  have d: "d = freshDistance computeDistance classify (es, target)"
    and ok1: "cache_ok computeDistance c1" by simp_all
  from Cons.IH [OF ok1 rest]
  have "ds1 = map (freshDistance computeDistance classify) qs" and "cache_ok computeDistance c2"
    by simp_all
  then show ?case
    using Cons.prems(2) d by (simp add: q step rest)
qed

text \<open>
  C9: for a fixed program graph (a fixed \<open>computeDistance\<close> and \<open>classify\<close>), starting
  from the empty cache and after any sequence \<open>qs\<close> of queries, every answer is the
  distance computed afresh for its query, every cache entry is the distance computed for
  its key, and asking \<^verbatim>\<open>getDistance(es, target)\<close> twice in a row gives the same
  \<^verbatim>\<open>DistanceResult\<close> both times.
\<close>

theorem getDistance_cache_deterministic:
  "fst (getDistances computeDistance classify [] qs) =
     map (freshDistance computeDistance classify) qs \<and>
   cache_ok computeDistance (snd (getDistances computeDistance classify [] qs)) \<and>
   fst (getDistance computeDistance classify
          (snd (getDistances computeDistance classify [] qs)) es target) =
     freshDistance computeDistance classify (es, target) \<and>
   fst (getDistance computeDistance classify
          (snd (getDistance computeDistance classify
             (snd (getDistances computeDistance classify [] qs)) es target)) es target) =
     fst (getDistance computeDistance classify
          (snd (getDistances computeDistance classify [] qs)) es target)"
proof -
  let ?c = "snd (getDistances computeDistance classify [] qs)"
  have run: "fst (getDistances computeDistance classify [] qs) =
      map (freshDistance computeDistance classify) qs" and ok: "cache_ok computeDistance ?c"
    using getDistances_ok [OF cache_ok_empty, of computeDistance classify qs]
    by (simp_all add: prod_eq_iff)
  have one: "fst (getDistance computeDistance classify ?c es target) =
      freshDistance computeDistance classify (es, target)"
    and ok1: "cache_ok computeDistance (snd (getDistance computeDistance classify ?c es target))"
    using getDistance_ok [OF ok, of classify es target] by (simp_all add: prod_eq_iff)
  have two: "fst (getDistance computeDistance classify
      (snd (getDistance computeDistance classify ?c es target)) es target) =
      freshDistance computeDistance classify (es, target)"
    using getDistance_ok [OF ok1, of classify es target] by (simp add: prod_eq_iff)
  show ?thesis using run ok one two by simp
qed

theorem getDistance_cache_deterministic_witness:
  "let computeDistance =
         (\<lambda>b k target. \<lparr>result = Continue, weight = of_nat (b + target),
                         isInsideFunction = (k = LocalTarget)\<rparr>);
       classify = (\<lambda>es target. (es, if es < target then LocalTarget else PostTarget));
       d8 = \<lparr>result = Continue, weight = 8, isInsideFunction = True\<rparr>;
       d9 = \<lparr>result = Continue, weight = 9, isInsideFunction = True\<rparr>
   in fst (getDistances computeDistance classify [] [(1::nat, 7), (2, 7), (1, 7)]) = [d8, d9, d8] \<and>
      fst (getDistance computeDistance classify
             (snd (getDistances computeDistance classify [] [(1, 7), (2, 7), (1, 7)])) 1 7) = d8"
  using getDistance_cache_deterministic
    [of "\<lambda>b k target. \<lparr>result = Continue, weight = of_nat (b + target),
                         isInsideFunction = (k = LocalTarget)\<rparr>"
        "\<lambda>es target. (es, if es < target then LocalTarget else PostTarget)"
        "[(1::nat, 7), (2, 7), (1, 7)]" 1 7]
  by (simp add: freshDistance_def Let_def)

end
